theory Spec2Isabelle
  imports Main
begin

section \<open>Lifecycle hook plugins over gRPC\<close>

text \<open>
  The package declares four hook interfaces (\<open>PreCreate\<close>, \<open>PostCreate\<close>, \<open>PreDelete\<close>,
  \<open>PostDelete\<close>) and, for each of them, a plugin struct with its two transport-binding
  methods, a client adapter that turns a local call into a remote one, and a server adapter
  whose handler turns a remote call into a local one. The source holds the package
  twice: an earlier version with the create hooks only, and the full one; the create
  hooks read the same in both.

  A Go method may change the world around it (the remote peer, the plugin's own
  variables), so each method is a function from the world before the call to its result
  and the world after it. The world is a type parameter \<open>'w\<close>: the adapters never look
  into it, they only hand it on to what they call.
\<close>

subsection \<open>Messages, errors and contexts\<close>

text \<open>
  Modelled from the spec: the message types \<open>proto.Stack\<close>, \<open>proto.Proceed\<close> and
  \<open>proto.Empty\<close> are generated code of another repository. The package reads and writes
  the field \<open>Name\<close> of the request and the field \<open>Failed\<close> of the pre-hook response;
  the spec gives the request as \<open>{ name: string }\<close>, the pre-hook response as
  \<open>{ failed: bool }\<close> and the post-hook response as empty. A Go string is a sequence of
  bytes, and so is a \<^typ>\<open>string\<close>.
\<close>

record Stack =
  Name :: string

record Proceed =
  Failed :: bool

datatype Empty = Empty

text \<open>Go's \<open>error\<close> interface: a non-nil error carries its message.\<close>

datatype error = Error string

text \<open>
  The one run-time panic the package's own statements can raise: reading a field through
  a nil pointer.
\<close>

datatype panic = NilPointerDereference

text \<open>
  Go's \<open>context.Context\<close>, as far as the package uses it: the client adapters pass
  \<open>context.Background()\<close>, the handlers receive the context of the incoming call and
  never look at it.
\<close>

datatype Context = Background | CallContext nat

subsection \<open>Plugin interface declarations\<close>

text \<open>
  An interface with the single method \<open>Execute\<close> is that method. The pre-hooks return a
  boolean, the post-hooks return nothing.
\<close>

type_synonym 'w PreCreate = "string \<Rightarrow> 'w \<Rightarrow> bool \<times> 'w"

type_synonym 'w PostCreate = "string \<Rightarrow> 'w \<Rightarrow> 'w"

type_synonym 'w PreDelete = "string \<Rightarrow> 'w \<Rightarrow> bool \<times> 'w"

type_synonym 'w PostDelete = "string \<Rightarrow> 'w \<Rightarrow> 'w"

text \<open>
  Modelled from the spec: the stub interfaces \<open>proto.PreCreateClient\<close>,
  \<open>proto.PostCreateClient\<close>, \<open>proto.PreDeleteClient\<close> and \<open>proto.PostDeleteClient\<close> are
  generated code of another repository. Each has one method
  \<open>Execute(ctx, in *Stack) (*Response, error)\<close>: a synchronous remote call taking the
  request and returning the response of its hook kind together with an error. The
  two results are independent values in Go; a failing call returns a nil response, so the
  response pointer is an \<^typ>\<open>'a option\<close>, and so is the error.
\<close>

type_synonym 'w PreCreateClient =
  "Context \<Rightarrow> Stack \<Rightarrow> 'w \<Rightarrow> (Proceed option \<times> error option) \<times> 'w"

type_synonym 'w PostCreateClient =
  "Context \<Rightarrow> Stack \<Rightarrow> 'w \<Rightarrow> (Empty option \<times> error option) \<times> 'w"

type_synonym 'w PreDeleteClient =
  "Context \<Rightarrow> Stack \<Rightarrow> 'w \<Rightarrow> (Proceed option \<times> error option) \<times> 'w"

type_synonym 'w PostDeleteClient =
  "Context \<Rightarrow> Stack \<Rightarrow> 'w \<Rightarrow> (Empty option \<times> error option) \<times> 'w"

subsection \<open>PRECREATE plugin structs and functions\<close>

text \<open>
  The plugin struct embeds \<open>plugin.Plugin\<close>, which no method of the package reads; the
  record keeps the field the methods use.
\<close>

record 'w PreCreateGRPCPlugin =
  Impl :: "'w PreCreate"

record 'w GRPCPreCreateClient =
  client :: "'w PreCreateClient"

record 'w GRPCPreCreateServer =
  Impl :: "'w PreCreate"

text \<open>
  \<open>GRPCServer\<close> calls the generated registration function
  \<open>proto.RegisterPreCreateServer\<close> on the server handle with a fresh server adapter, then
  returns nil. The registration function belongs to the generated code and is a parameter
  here: it takes the server handle and the adapter and gives the server handle back. The
  result is the returned error and the server handle after the call.
\<close>

definition PreCreateGRPCPlugin_GRPCServer ::
  "('srv \<Rightarrow> 'w GRPCPreCreateServer \<Rightarrow> 'srv) \<Rightarrow> 'w PreCreateGRPCPlugin \<Rightarrow> 'broker \<Rightarrow> 'srv
     \<Rightarrow> error option \<times> 'srv" where
  "PreCreateGRPCPlugin_GRPCServer RegisterPreCreateServer p broker s =
     (let s' = RegisterPreCreateServer s
                 \<lparr>GRPCPreCreateServer.Impl = PreCreateGRPCPlugin.Impl p\<rparr>
      in (None, s'))"

text \<open>
  \<open>GRPCClient\<close> wraps the stub that the generated constructor
  \<open>proto.NewPreCreateClient\<close> (a parameter, as above) makes for the connection, and
  returns it with a nil error.
\<close>

definition PreCreateGRPCPlugin_GRPCClient ::
  "('conn \<Rightarrow> 'w PreCreateClient) \<Rightarrow> 'w PreCreateGRPCPlugin \<Rightarrow> Context \<Rightarrow> 'broker \<Rightarrow> 'conn
     \<Rightarrow> 'w GRPCPreCreateClient \<times> error option" where
  "PreCreateGRPCPlugin_GRPCClient NewPreCreateClient p ctx broker c =
     (\<lparr>GRPCPreCreateClient.client = NewPreCreateClient c\<rparr>, None)"

text \<open>
  The client adapter's \<open>Execute\<close> has a pointer receiver, so the method could assign to
  the adapter's field; the result therefore carries the adapter as the call leaves it,
  between the returned value and the world. The method returns \<open>false\<close> when the error
  is not nil, and reads \<open>p.Failed\<close> otherwise, which panics when \<open>p\<close> is nil.
\<close>

definition GRPCPreCreateClient_Execute ::
  "'w GRPCPreCreateClient \<Rightarrow> string \<Rightarrow> 'w \<Rightarrow> (panic + bool) \<times> 'w GRPCPreCreateClient \<times> 'w" where
  "GRPCPreCreateClient_Execute m key w =
     (case GRPCPreCreateClient.client m Background \<lparr>Name = key\<rparr> w of
        ((p, err), w') \<Rightarrow>
          (case err of
             Some e \<Rightarrow> (Inr False, m, w')
           | None \<Rightarrow>
               (case p of
                  None \<Rightarrow> (Inl NilPointerDereference, m, w')
                | Some r \<Rightarrow> (Inr (Failed r), m, w'))))"

text \<open>
  The handler of the server adapter is called by the gRPC runtime, which decodes every
  incoming message into a freshly allocated \<open>Stack\<close> before the call: the request is a
  message, not a nil pointer. The result is the pair \<open>(*proto.Proceed, error)\<close> and the
  world as the implementation left it.
\<close>

definition GRPCPreCreateServer_Execute ::
  "'w GRPCPreCreateServer \<Rightarrow> Context \<Rightarrow> Stack \<Rightarrow> 'w
     \<Rightarrow> (Proceed option \<times> error option) \<times> 'w" where
  "GRPCPreCreateServer_Execute m ctx req w =
     (case GRPCPreCreateServer.Impl m (Name req) w of
        (res, w') \<Rightarrow> ((Some \<lparr>Failed = res\<rparr>, None), w'))"

subsection \<open>POSTCREATE plugin structs and functions\<close>

record 'w PostCreateGRPCPlugin =
  Impl :: "'w PostCreate"

record 'w GRPCPostCreateClient =
  client :: "'w PostCreateClient"

record 'w GRPCPostCreateServer =
  Impl :: "'w PostCreate"

text \<open>
  The post-hook adapter calls the stub and drops both of its results: the method has no
  return value, so its result is \<^term>\<open>()\<close>, the adapter and the world after the
  remote call.
\<close>

definition GRPCPostCreateClient_Execute ::
  "'w GRPCPostCreateClient \<Rightarrow> string \<Rightarrow> 'w \<Rightarrow> unit \<times> 'w GRPCPostCreateClient \<times> 'w" where
  "GRPCPostCreateClient_Execute m stackname w =
     (case GRPCPostCreateClient.client m Background \<lparr>Name = stackname\<rparr> w of
        ((p, err), w') \<Rightarrow> ((), m, w'))"

definition PostCreateGRPCPlugin_GRPCServer ::
  "('srv \<Rightarrow> 'w GRPCPostCreateServer \<Rightarrow> 'srv) \<Rightarrow> 'w PostCreateGRPCPlugin \<Rightarrow> 'broker \<Rightarrow> 'srv
     \<Rightarrow> error option \<times> 'srv" where
  "PostCreateGRPCPlugin_GRPCServer RegisterPostCreateServer p broker s =
     (let s' = RegisterPostCreateServer s
                 \<lparr>GRPCPostCreateServer.Impl = PostCreateGRPCPlugin.Impl p\<rparr>
      in (None, s'))"

definition PostCreateGRPCPlugin_GRPCClient ::
  "('conn \<Rightarrow> 'w PostCreateClient) \<Rightarrow> 'w PostCreateGRPCPlugin \<Rightarrow> Context \<Rightarrow> 'broker \<Rightarrow> 'conn
     \<Rightarrow> 'w GRPCPostCreateClient \<times> error option" where
  "PostCreateGRPCPlugin_GRPCClient NewPostCreateClient p ctx broker c =
     (\<lparr>GRPCPostCreateClient.client = NewPostCreateClient c\<rparr>, None)"

definition GRPCPostCreateServer_Execute ::
  "'w GRPCPostCreateServer \<Rightarrow> Context \<Rightarrow> Stack \<Rightarrow> 'w
     \<Rightarrow> (Empty option \<times> error option) \<times> 'w" where
  "GRPCPostCreateServer_Execute m ctx req w =
     (let w' = GRPCPostCreateServer.Impl m (Name req) w
      in ((Some Empty, None), w'))"

subsection \<open>PREDELETE plugin structs and functions\<close>

record 'w PreDeleteGRPCPlugin =
  Impl :: "'w PreDelete"

record 'w GRPCPreDeleteClient =
  client :: "'w PreDeleteClient"

record 'w GRPCPreDeleteServer =
  Impl :: "'w PreDelete"

definition PreDeleteGRPCPlugin_GRPCServer ::
  "('srv \<Rightarrow> 'w GRPCPreDeleteServer \<Rightarrow> 'srv) \<Rightarrow> 'w PreDeleteGRPCPlugin \<Rightarrow> 'broker \<Rightarrow> 'srv
     \<Rightarrow> error option \<times> 'srv" where
  "PreDeleteGRPCPlugin_GRPCServer RegisterPreDeleteServer p broker s =
     (let s' = RegisterPreDeleteServer s
                 \<lparr>GRPCPreDeleteServer.Impl = PreDeleteGRPCPlugin.Impl p\<rparr>
      in (None, s'))"

definition PreDeleteGRPCPlugin_GRPCClient ::
  "('conn \<Rightarrow> 'w PreDeleteClient) \<Rightarrow> 'w PreDeleteGRPCPlugin \<Rightarrow> Context \<Rightarrow> 'broker \<Rightarrow> 'conn
     \<Rightarrow> 'w GRPCPreDeleteClient \<times> error option" where
  "PreDeleteGRPCPlugin_GRPCClient NewPreDeleteClient p ctx broker c =
     (\<lparr>GRPCPreDeleteClient.client = NewPreDeleteClient c\<rparr>, None)"

definition GRPCPreDeleteClient_Execute ::
  "'w GRPCPreDeleteClient \<Rightarrow> string \<Rightarrow> 'w \<Rightarrow> (panic + bool) \<times> 'w GRPCPreDeleteClient \<times> 'w" where
  "GRPCPreDeleteClient_Execute m key w =
     (case GRPCPreDeleteClient.client m Background \<lparr>Name = key\<rparr> w of
        ((p, err), w') \<Rightarrow>
          (case err of
             Some e \<Rightarrow> (Inr False, m, w')
           | None \<Rightarrow>
               (case p of
                  None \<Rightarrow> (Inl NilPointerDereference, m, w')
                | Some r \<Rightarrow> (Inr (Failed r), m, w'))))"

definition GRPCPreDeleteServer_Execute ::
  "'w GRPCPreDeleteServer \<Rightarrow> Context \<Rightarrow> Stack \<Rightarrow> 'w
     \<Rightarrow> (Proceed option \<times> error option) \<times> 'w" where
  "GRPCPreDeleteServer_Execute m ctx req w =
     (case GRPCPreDeleteServer.Impl m (Name req) w of
        (res, w') \<Rightarrow> ((Some \<lparr>Failed = res\<rparr>, None), w'))"

subsection \<open>POSTDELETE plugin structs and functions\<close>

record 'w PostDeleteGRPCPlugin =
  Impl :: "'w PostDelete"

record 'w GRPCPostDeleteClient =
  client :: "'w PostDeleteClient"

record 'w GRPCPostDeleteServer =
  Impl :: "'w PostDelete"

definition GRPCPostDeleteClient_Execute ::
  "'w GRPCPostDeleteClient \<Rightarrow> string \<Rightarrow> 'w \<Rightarrow> unit \<times> 'w GRPCPostDeleteClient \<times> 'w" where
  "GRPCPostDeleteClient_Execute m stackname w =
     (case GRPCPostDeleteClient.client m Background \<lparr>Name = stackname\<rparr> w of
        ((p, err), w') \<Rightarrow> ((), m, w'))"

definition PostDeleteGRPCPlugin_GRPCServer ::
  "('srv \<Rightarrow> 'w GRPCPostDeleteServer \<Rightarrow> 'srv) \<Rightarrow> 'w PostDeleteGRPCPlugin \<Rightarrow> 'broker \<Rightarrow> 'srv
     \<Rightarrow> error option \<times> 'srv" where
  "PostDeleteGRPCPlugin_GRPCServer RegisterPostDeleteServer p broker s =
     (let s' = RegisterPostDeleteServer s
                 \<lparr>GRPCPostDeleteServer.Impl = PostDeleteGRPCPlugin.Impl p\<rparr>
      in (None, s'))"

definition PostDeleteGRPCPlugin_GRPCClient ::
  "('conn \<Rightarrow> 'w PostDeleteClient) \<Rightarrow> 'w PostDeleteGRPCPlugin \<Rightarrow> Context \<Rightarrow> 'broker \<Rightarrow> 'conn
     \<Rightarrow> 'w GRPCPostDeleteClient \<times> error option" where
  "PostDeleteGRPCPlugin_GRPCClient NewPostDeleteClient p ctx broker c =
     (\<lparr>GRPCPostDeleteClient.client = NewPostDeleteClient c\<rparr>, None)"

definition GRPCPostDeleteServer_Execute ::
  "'w GRPCPostDeleteServer \<Rightarrow> Context \<Rightarrow> Stack \<Rightarrow> 'w
     \<Rightarrow> (Empty option \<times> error option) \<times> 'w" where
  "GRPCPostDeleteServer_Execute m ctx req w =
     (let w' = GRPCPostDeleteServer.Impl m (Name req) w
      in ((Some Empty, None), w'))"

section \<open>The adapters at work\<close>

subsection \<open>Remote peers\<close>

text \<open>
  Two stubs for a remote peer: one whose every call succeeds with the response \<open>r\<close>,
  and one whose every call fails with the error \<open>e\<close> and a nil response, as a broken
  connection does. Neither touches the world.
\<close>

definition responding ::
  "'r \<Rightarrow> Context \<Rightarrow> Stack \<Rightarrow> 'w \<Rightarrow> ('r option \<times> error option) \<times> 'w" where
  "responding r ctx req w = ((Some r, None), w)"

definition unreachable ::
  "error \<Rightarrow> Context \<Rightarrow> Stack \<Rightarrow> 'w \<Rightarrow> ('r option \<times> error option) \<times> 'w" where
  "unreachable e ctx req w = ((None, Some e), w)"

text \<open>
  Modelled from the spec: the transport that carries a call from a stub to the handler
  registered on the other side belongs to the plugin host runtime and is not part of the
  package. A faithful transport is free of errors of its own and preserves messages: the
  handler receives the request the stub was given, under the server-side call context
  \<open>sctx\<close>, and the caller receives the response and the error the handler returned.
\<close>

definition faithful_transport ::
  "Context \<Rightarrow> (Context \<Rightarrow> Stack \<Rightarrow> 'w \<Rightarrow> ('r option \<times> error option) \<times> 'w)
     \<Rightarrow> Context \<Rightarrow> Stack \<Rightarrow> 'w \<Rightarrow> ('r option \<times> error option) \<times> 'w" where
  "faithful_transport sctx handler ctx req w = handler sctx req w"

text \<open>
  A client adapter connected over a faithful transport to the server adapter that wraps
  the local implementation, one for each hook kind.
\<close>

definition connected_PreCreateClient :: "Context \<Rightarrow> 'w PreCreate \<Rightarrow> 'w GRPCPreCreateClient" where
  "connected_PreCreateClient sctx f =
     \<lparr>GRPCPreCreateClient.client =
        faithful_transport sctx (GRPCPreCreateServer_Execute \<lparr>GRPCPreCreateServer.Impl = f\<rparr>)\<rparr>"

definition connected_PostCreateClient :: "Context \<Rightarrow> 'w PostCreate \<Rightarrow> 'w GRPCPostCreateClient" where
  "connected_PostCreateClient sctx g =
     \<lparr>GRPCPostCreateClient.client =
        faithful_transport sctx (GRPCPostCreateServer_Execute \<lparr>GRPCPostCreateServer.Impl = g\<rparr>)\<rparr>"

definition connected_PreDeleteClient :: "Context \<Rightarrow> 'w PreDelete \<Rightarrow> 'w GRPCPreDeleteClient" where
  "connected_PreDeleteClient sctx f =
     \<lparr>GRPCPreDeleteClient.client =
        faithful_transport sctx (GRPCPreDeleteServer_Execute \<lparr>GRPCPreDeleteServer.Impl = f\<rparr>)\<rparr>"

definition connected_PostDeleteClient :: "Context \<Rightarrow> 'w PostDelete \<Rightarrow> 'w GRPCPostDeleteClient" where
  "connected_PostDeleteClient sctx g =
     \<lparr>GRPCPostDeleteClient.client =
        faithful_transport sctx (GRPCPostDeleteServer_Execute \<lparr>GRPCPostDeleteServer.Impl = g\<rparr>)\<rparr>"

subsection \<open>Local implementations\<close>

text \<open>
  To count the calls an adapter makes, an implementation is wrapped so that it keeps a
  list of the names it was called with: every call appends its argument to the list and
  otherwise does what the wrapped implementation does. The world of the wrapped
  implementation is the list together with the world of the original one.
\<close>

definition recording_pre :: "'u PreCreate \<Rightarrow> (string list \<times> 'u) PreCreate" where
  "recording_pre f stackname lw =
     (case lw of (calls, u) \<Rightarrow>
        (case f stackname u of (res, u') \<Rightarrow> (res, (calls @ [stackname], u'))))"

definition recording_post :: "'u PostCreate \<Rightarrow> (string list \<times> 'u) PostCreate" where
  "recording_post g stackname lw =
     (case lw of (calls, u) \<Rightarrow> (calls @ [stackname], g stackname u))"

text \<open>A post-hook whose side effect is to increment a counter.\<close>

definition increment_counter :: "nat PostDelete" where
  "increment_counter stackname n = n + 1"

text \<open>A pre-hook that aborts the operation on the stack \<open>name\<close> and on no other.\<close>

definition abort_only :: "string \<Rightarrow> 'w PreCreate" where
  "abort_only name stackname w = (stackname = name, w)"

text \<open>
  The client adapter over a faithful transport, seen as a hook of its own (its result and
  the world it leaves), and the local implementation called directly, which returns its
  result without a panic.
\<close>

definition remote_PreCreate ::
  "Context \<Rightarrow> 'w PreCreate \<Rightarrow> string \<Rightarrow> 'w \<Rightarrow> (panic + bool) \<times> 'w" where
  "remote_PreCreate sctx f s w =
     (case GRPCPreCreateClient_Execute (connected_PreCreateClient sctx f) s w of
        (res, m, w') \<Rightarrow> (res, w'))"

definition local_PreCreate :: "'w PreCreate \<Rightarrow> string \<Rightarrow> 'w \<Rightarrow> (panic + bool) \<times> 'w" where
  "local_PreCreate f s w = (case f s w of (res, w') \<Rightarrow> (Inr res, w'))"

section \<open>Properties\<close>

subsection \<open>Helper facts\<close>

lemma recording_pre_step:
  "recording_pre f name (calls, u) = (fst (f name u), (calls @ [name], snd (f name u)))"
  by (simp add: recording_pre_def split: prod.split)

lemma recording_post_step:
  "recording_post g name (calls, u) = (calls @ [name], g name u)"
  by (simp add: recording_post_def)

lemma PreCreate_remote_call:
  "GRPCPreCreateClient_Execute (connected_PreCreateClient sctx f) s w
     = (Inr (fst (f s w)), connected_PreCreateClient sctx f, snd (f s w))"
  by (simp add: GRPCPreCreateClient_Execute_def connected_PreCreateClient_def
      faithful_transport_def GRPCPreCreateServer_Execute_def split: prod.split)

lemma PostCreate_remote_call:
  "GRPCPostCreateClient_Execute (connected_PostCreateClient sctx g) s w
     = ((), connected_PostCreateClient sctx g, g s w)"
  by (simp add: GRPCPostCreateClient_Execute_def connected_PostCreateClient_def
      faithful_transport_def GRPCPostCreateServer_Execute_def)

lemma PreDelete_remote_call:
  "GRPCPreDeleteClient_Execute (connected_PreDeleteClient sctx f) s w
     = (Inr (fst (f s w)), connected_PreDeleteClient sctx f, snd (f s w))"
  by (simp add: GRPCPreDeleteClient_Execute_def connected_PreDeleteClient_def
      faithful_transport_def GRPCPreDeleteServer_Execute_def split: prod.split)

lemma PostDelete_remote_call:
  "GRPCPostDeleteClient_Execute (connected_PostDeleteClient sctx g) s w
     = ((), connected_PostDeleteClient sctx g, g s w)"
  by (simp add: GRPCPostDeleteClient_Execute_def connected_PostDeleteClient_def
      faithful_transport_def GRPCPostDeleteServer_Execute_def)

lemma PreCreateClient_keeps_receiver:
  "fst (snd (GRPCPreCreateClient_Execute m s w)) = m"
  by (simp add: GRPCPreCreateClient_Execute_def split: prod.split option.split)

lemma PostCreateClient_keeps_receiver:
  "fst (snd (GRPCPostCreateClient_Execute m s w)) = m"
  by (simp add: GRPCPostCreateClient_Execute_def split: prod.split)

lemma PreDeleteClient_keeps_receiver:
  "fst (snd (GRPCPreDeleteClient_Execute m s w)) = m"
  by (simp add: GRPCPreDeleteClient_Execute_def split: prod.split option.split)

lemma PostDeleteClient_keeps_receiver:
  "fst (snd (GRPCPostDeleteClient_Execute m s w)) = m"
  by (simp add: GRPCPostDeleteClient_Execute_def split: prod.split)

text \<open>
  A stub that returns neither a response nor an error makes the pre-hook adapter read
  \<open>Failed\<close> through a nil pointer. The generated stubs never do so: they return a
  response exactly when the error is nil.
\<close>

lemma PreCreateClient_nil_response_panics:
  "GRPCPreCreateClient_Execute
     \<lparr>GRPCPreCreateClient.client = (\<lambda>ctx req w. ((None, None), w))\<rparr> s w
   = (Inl NilPointerDereference,
      \<lparr>GRPCPreCreateClient.client = (\<lambda>ctx req w. ((None, None), w))\<rparr>, w)"
  by (simp add: GRPCPreCreateClient_Execute_def)

subsection \<open>Client adapters\<close>

text \<open>
  Claim C1. For every stack identifier \<open>s\<close>: when the remote call made by the
  \<open>Execute\<close> of a PreCreate or PreDelete client adapter succeeds, that is, the stub
  returns a response \<open>r\<close> and a nil error, \<open>Execute\<close> returns exactly the field
  \<open>Failed\<close> of the response (true for true, false for false), and the world is the one
  the remote call left.
\<close>

theorem PreClient_Execute_returns_Failed:
  "(GRPCPreCreateClient.client mc Background \<lparr>Name = s\<rparr> w = ((Some r, None), w') \<longrightarrow>
      GRPCPreCreateClient_Execute mc s w = (Inr (Failed r), mc, w')) \<and>
   (GRPCPreDeleteClient.client md Background \<lparr>Name = s\<rparr> w = ((Some r, None), w') \<longrightarrow>
      GRPCPreDeleteClient_Execute md s w = (Inr (Failed r), md, w'))"
  by (simp add: GRPCPreCreateClient_Execute_def GRPCPreDeleteClient_Execute_def)

theorem PreClient_Execute_returns_Failed_witness:
  "GRPCPreCreateClient_Execute \<lparr>GRPCPreCreateClient.client = responding \<lparr>Failed = True\<rparr>\<rparr>
       ''prod-stack-1'' (0::nat)
     = (Inr True, \<lparr>GRPCPreCreateClient.client = responding \<lparr>Failed = True\<rparr>\<rparr>, 0) \<and>
   GRPCPreDeleteClient_Execute \<lparr>GRPCPreDeleteClient.client = responding \<lparr>Failed = False\<rparr>\<rparr>
       ''prod-stack-1'' (0::nat)
     = (Inr False, \<lparr>GRPCPreDeleteClient.client = responding \<lparr>Failed = False\<rparr>\<rparr>, 0)"
proof -
  let ?mc = "\<lparr>GRPCPreCreateClient.client = responding \<lparr>Failed = True\<rparr>\<rparr>
               :: nat GRPCPreCreateClient"
  let ?md = "\<lparr>GRPCPreDeleteClient.client = responding \<lparr>Failed = False\<rparr>\<rparr>
               :: nat GRPCPreDeleteClient"
  have hc: "GRPCPreCreateClient.client ?mc Background \<lparr>Name = ''prod-stack-1''\<rparr> (0::nat)
              = ((Some \<lparr>Failed = True\<rparr>, None), 0)"
    by (simp add: responding_def)
  have hd: "GRPCPreDeleteClient.client ?md Background \<lparr>Name = ''prod-stack-1''\<rparr> (0::nat)
              = ((Some \<lparr>Failed = False\<rparr>, None), 0)"
    by (simp add: responding_def)
  from PreClient_Execute_returns_Failed
         [where mc = ?mc and s = "''prod-stack-1''" and w = 0
            and r = "\<lparr>Failed = True\<rparr>" and w' = 0]
  have "GRPCPreCreateClient_Execute ?mc ''prod-stack-1'' 0 = (Inr True, ?mc, 0)"
    using hc by simp
  moreover
  from PreClient_Execute_returns_Failed
         [where md = ?md and s = "''prod-stack-1''" and w = 0
            and r = "\<lparr>Failed = False\<rparr>" and w' = 0]
  have "GRPCPreDeleteClient_Execute ?md ''prod-stack-1'' 0 = (Inr False, ?md, 0)"
    using hd by simp
  ultimately show ?thesis by simp
qed

text \<open>
  Claim C2. For every stack identifier \<open>s\<close>: if the remote call made by the
  \<open>Execute\<close> of a PreCreate or PreDelete client adapter fails, that is, the stub returns
  a non-nil error \<open>e\<close> (whatever the response pointer \<open>p\<close> is), \<open>Execute\<close> returns
  false. The result is an ordinary boolean: no error and no panic reaches the caller.
\<close>

theorem PreClient_Execute_fails_open:
  "(GRPCPreCreateClient.client mc Background \<lparr>Name = s\<rparr> w = ((p, Some e), w') \<longrightarrow>
      GRPCPreCreateClient_Execute mc s w = (Inr False, mc, w')) \<and>
   (GRPCPreDeleteClient.client md Background \<lparr>Name = s\<rparr> w = ((p, Some e), w') \<longrightarrow>
      GRPCPreDeleteClient_Execute md s w = (Inr False, md, w'))"
  by (simp add: GRPCPreCreateClient_Execute_def GRPCPreDeleteClient_Execute_def)

theorem PreClient_Execute_fails_open_witness:
  "GRPCPreCreateClient_Execute
       \<lparr>GRPCPreCreateClient.client = unreachable (Error ''connection refused'')\<rparr>
       ''prod-stack-1'' (0::nat)
     = (Inr False,
        \<lparr>GRPCPreCreateClient.client = unreachable (Error ''connection refused'')\<rparr>, 0) \<and>
   GRPCPreDeleteClient_Execute
       \<lparr>GRPCPreDeleteClient.client =
          (\<lambda>ctx req w. ((Some \<lparr>Failed = True\<rparr>, Some (Error ''deadline exceeded'')), w))\<rparr>
       ''prod-stack-1'' (0::nat)
     = (Inr False,
        \<lparr>GRPCPreDeleteClient.client =
          (\<lambda>ctx req w. ((Some \<lparr>Failed = True\<rparr>, Some (Error ''deadline exceeded'')), w))\<rparr>, 0)"
proof -
  let ?mc = "\<lparr>GRPCPreCreateClient.client = unreachable (Error ''connection refused'')\<rparr>
               :: nat GRPCPreCreateClient"
  let ?md = "\<lparr>GRPCPreDeleteClient.client =
                (\<lambda>ctx req w. ((Some \<lparr>Failed = True\<rparr>, Some (Error ''deadline exceeded'')), w))\<rparr>
               :: nat GRPCPreDeleteClient"
  have hc: "GRPCPreCreateClient.client ?mc Background \<lparr>Name = ''prod-stack-1''\<rparr> (0::nat)
              = ((None, Some (Error ''connection refused'')), 0)"
    by (simp add: unreachable_def)
  have hd: "GRPCPreDeleteClient.client ?md Background \<lparr>Name = ''prod-stack-1''\<rparr> (0::nat)
              = ((Some \<lparr>Failed = True\<rparr>, Some (Error ''deadline exceeded'')), 0)"
    by simp
  from PreClient_Execute_fails_open
         [where mc = ?mc and s = "''prod-stack-1''" and w = 0 and p = None
            and e = "Error ''connection refused''" and w' = 0]
  have "GRPCPreCreateClient_Execute ?mc ''prod-stack-1'' 0 = (Inr False, ?mc, 0)"
    using hc by simp
  moreover
  from PreClient_Execute_fails_open
         [where md = ?md and s = "''prod-stack-1''" and w = 0
            and p = "Some \<lparr>Failed = True\<rparr>"
            and e = "Error ''deadline exceeded''" and w' = 0]
  have "GRPCPreDeleteClient_Execute ?md ''prod-stack-1'' 0 = (Inr False, ?md, 0)"
    using hd by simp
  ultimately show ?thesis by simp
qed

text \<open>
  Claim C3. For every stack identifier \<open>s\<close>: the \<open>Execute\<close> of a PostCreate or
  PostDelete client adapter returns unit whatever the remote call returned. The response
  \<open>p\<close> and the error \<open>err\<close> of the stub are dropped, so the caller learns nothing
  about a failed delivery.
\<close>

theorem PostClient_Execute_drops_outcome:
  "(GRPCPostCreateClient.client mc Background \<lparr>Name = s\<rparr> w = ((p, err), w') \<longrightarrow>
      GRPCPostCreateClient_Execute mc s w = ((), mc, w')) \<and>
   (GRPCPostDeleteClient.client md Background \<lparr>Name = s\<rparr> w = ((p, err), w') \<longrightarrow>
      GRPCPostDeleteClient_Execute md s w = ((), md, w'))"
  by (simp add: GRPCPostCreateClient_Execute_def GRPCPostDeleteClient_Execute_def)

theorem PostClient_Execute_drops_outcome_witness:
  "GRPCPostCreateClient_Execute
       \<lparr>GRPCPostCreateClient.client = unreachable (Error ''connection refused'')\<rparr>
       ''prod-stack-1'' (0::nat)
     = ((), \<lparr>GRPCPostCreateClient.client = unreachable (Error ''connection refused'')\<rparr>, 0) \<and>
   GRPCPostDeleteClient_Execute \<lparr>GRPCPostDeleteClient.client = responding Empty\<rparr>
       ''prod-stack-1'' (0::nat)
     = ((), \<lparr>GRPCPostDeleteClient.client = responding Empty\<rparr>, 0)"
proof -
  let ?mc = "\<lparr>GRPCPostCreateClient.client = unreachable (Error ''connection refused'')\<rparr>
               :: nat GRPCPostCreateClient"
  let ?md = "\<lparr>GRPCPostDeleteClient.client = responding Empty\<rparr> :: nat GRPCPostDeleteClient"
  have hc: "GRPCPostCreateClient.client ?mc Background \<lparr>Name = ''prod-stack-1''\<rparr> (0::nat)
              = ((None, Some (Error ''connection refused'')), 0)"
    by (simp add: unreachable_def)
  have hd: "GRPCPostDeleteClient.client ?md Background \<lparr>Name = ''prod-stack-1''\<rparr> (0::nat)
              = ((Some Empty, None), 0)"
    by (simp add: responding_def)
  from PostClient_Execute_drops_outcome
         [where mc = ?mc and s = "''prod-stack-1''" and w = 0 and p = None
            and err = "Some (Error ''connection refused'')" and w' = 0]
  have "GRPCPostCreateClient_Execute ?mc ''prod-stack-1'' 0 = ((), ?mc, 0)"
    using hc by simp
  moreover
  from PostClient_Execute_drops_outcome
         [where md = ?md and s = "''prod-stack-1''" and w = 0 and p = "Some Empty"
            and err = None and w' = 0]
  have "GRPCPostDeleteClient_Execute ?md ''prod-stack-1'' 0 = ((), ?md, 0)"
    using hd by simp
  ultimately show ?thesis by simp
qed

text \<open>
  Claim C9. The \<open>Execute\<close> of every client adapter leaves the adapter as it found it:
  the adapter after the call, and with it the stored handle of the remote endpoint, is
  the adapter before the call. Hence a call that follows another one is a call on the
  original adapter in the world the first call left: the adapter carries nothing from
  one hook invocation to the next.
\<close>

theorem Client_Execute_keeps_adapter:
  "fst (snd (GRPCPreCreateClient_Execute m1 s w)) = m1
   \<and> fst (snd (GRPCPostCreateClient_Execute m2 s w)) = m2
   \<and> fst (snd (GRPCPreDeleteClient_Execute m3 s w)) = m3
   \<and> fst (snd (GRPCPostDeleteClient_Execute m4 s w)) = m4
   \<and> (case GRPCPreCreateClient_Execute m1 s w of
         (r, m', w') \<Rightarrow> GRPCPreCreateClient_Execute m' t w')
       = GRPCPreCreateClient_Execute m1 t (snd (snd (GRPCPreCreateClient_Execute m1 s w)))
   \<and> (case GRPCPostCreateClient_Execute m2 s w of
         (r, m', w') \<Rightarrow> GRPCPostCreateClient_Execute m' t w')
       = GRPCPostCreateClient_Execute m2 t (snd (snd (GRPCPostCreateClient_Execute m2 s w)))
   \<and> (case GRPCPreDeleteClient_Execute m3 s w of
         (r, m', w') \<Rightarrow> GRPCPreDeleteClient_Execute m' t w')
       = GRPCPreDeleteClient_Execute m3 t (snd (snd (GRPCPreDeleteClient_Execute m3 s w)))
   \<and> (case GRPCPostDeleteClient_Execute m4 s w of
         (r, m', w') \<Rightarrow> GRPCPostDeleteClient_Execute m' t w')
       = GRPCPostDeleteClient_Execute m4 t (snd (snd (GRPCPostDeleteClient_Execute m4 s w)))"
proof -
  have "(case GRPCPreCreateClient_Execute m1 s w of
         (r, m', w') \<Rightarrow> GRPCPreCreateClient_Execute m' t w')
       = GRPCPreCreateClient_Execute m1 t (snd (snd (GRPCPreCreateClient_Execute m1 s w)))"
    using PreCreateClient_keeps_receiver [of m1 s w]
    by (cases "GRPCPreCreateClient_Execute m1 s w") auto
  moreover have "(case GRPCPostCreateClient_Execute m2 s w of
         (r, m', w') \<Rightarrow> GRPCPostCreateClient_Execute m' t w')
       = GRPCPostCreateClient_Execute m2 t (snd (snd (GRPCPostCreateClient_Execute m2 s w)))"
    using PostCreateClient_keeps_receiver [of m2 s w]
    by (cases "GRPCPostCreateClient_Execute m2 s w") auto
  moreover have "(case GRPCPreDeleteClient_Execute m3 s w of
         (r, m', w') \<Rightarrow> GRPCPreDeleteClient_Execute m' t w')
       = GRPCPreDeleteClient_Execute m3 t (snd (snd (GRPCPreDeleteClient_Execute m3 s w)))"
    using PreDeleteClient_keeps_receiver [of m3 s w]
    by (cases "GRPCPreDeleteClient_Execute m3 s w") auto
  moreover have "(case GRPCPostDeleteClient_Execute m4 s w of
         (r, m', w') \<Rightarrow> GRPCPostDeleteClient_Execute m' t w')
       = GRPCPostDeleteClient_Execute m4 t (snd (snd (GRPCPostDeleteClient_Execute m4 s w)))"
    using PostDeleteClient_keeps_receiver [of m4 s w]
    by (cases "GRPCPostDeleteClient_Execute m4 s w") auto
  ultimately show ?thesis
    by (simp add: PreCreateClient_keeps_receiver PostCreateClient_keeps_receiver
        PreDeleteClient_keeps_receiver PostDeleteClient_keeps_receiver)
qed

subsection \<open>Server adapters\<close>

text \<open>
  Claim C4. For every incoming request, the handler of each of the four server adapters
  calls the \<open>Execute\<close> of the wrapped implementation exactly once, with the field
  \<open>Name\<close> of the request as its argument: when the implementation records its calls,
  the record grows by that one name, and the rest of the world is what one call of the
  implementation makes of it. The pre-hook handlers put the boolean the implementation
  returned into the field \<open>Failed\<close> of the response.
\<close>

theorem Server_Execute_calls_Impl_once:
  "GRPCPreCreateServer_Execute \<lparr>GRPCPreCreateServer.Impl = recording_pre f\<rparr> ctx req (calls, u)
     = ((Some \<lparr>Failed = fst (f (Name req) u)\<rparr>, None),
        (calls @ [Name req], snd (f (Name req) u)))
   \<and> GRPCPostCreateServer_Execute \<lparr>GRPCPostCreateServer.Impl = recording_post g\<rparr> ctx req
        (calls, u)
     = ((Some Empty, None), (calls @ [Name req], g (Name req) u))
   \<and> GRPCPreDeleteServer_Execute \<lparr>GRPCPreDeleteServer.Impl = recording_pre f\<rparr> ctx req
        (calls, u)
     = ((Some \<lparr>Failed = fst (f (Name req) u)\<rparr>, None),
        (calls @ [Name req], snd (f (Name req) u)))
   \<and> GRPCPostDeleteServer_Execute \<lparr>GRPCPostDeleteServer.Impl = recording_post g\<rparr> ctx req
        (calls, u)
     = ((Some Empty, None), (calls @ [Name req], g (Name req) u))"
  by (simp add: GRPCPreCreateServer_Execute_def GRPCPostCreateServer_Execute_def
      GRPCPreDeleteServer_Execute_def GRPCPostDeleteServer_Execute_def
      recording_pre_step recording_post_step)

text \<open>
  Claim C8. The handler of every server adapter never fails on its own: for every
  request and every result of the wrapped implementation, it returns a response envelope
  (carrying the implementation's result for the pre-hooks, empty for the post-hooks)
  together with a nil error.
\<close>

theorem Server_Execute_nil_error:
  "fst (GRPCPreCreateServer_Execute m1 ctx req w)
     = (Some \<lparr>Failed = fst (GRPCPreCreateServer.Impl m1 (Name req) w)\<rparr>, None)
   \<and> fst (GRPCPostCreateServer_Execute m2 ctx req w) = (Some Empty, None)
   \<and> fst (GRPCPreDeleteServer_Execute m3 ctx req w)
     = (Some \<lparr>Failed = fst (GRPCPreDeleteServer.Impl m3 (Name req) w)\<rparr>, None)
   \<and> fst (GRPCPostDeleteServer_Execute m4 ctx req w) = (Some Empty, None)"
  by (simp add: GRPCPreCreateServer_Execute_def GRPCPostCreateServer_Execute_def
      GRPCPreDeleteServer_Execute_def GRPCPostDeleteServer_Execute_def split: prod.split)

subsection \<open>Client and server adapters together\<close>

text \<open>
  Claim C5. For every string \<open>s\<close>, the empty string and strings with bytes outside
  ASCII among them: the name that the client adapter puts into the request is the name
  that the server adapter takes out of it. Over a faithful transport, the one call the
  implementation records for a client-side \<open>Execute\<close> of \<open>s\<close> is a call with
  \<open>s\<close> itself, for each of the four hook kinds.
\<close>

theorem Name_round_trip:
  "snd (snd (GRPCPreCreateClient_Execute
               (connected_PreCreateClient sctx (recording_pre f)) s ([], u)))
     = ([s], snd (f s u))
   \<and> snd (snd (GRPCPostCreateClient_Execute
               (connected_PostCreateClient sctx (recording_post g)) s ([], u)))
     = ([s], g s u)
   \<and> snd (snd (GRPCPreDeleteClient_Execute
               (connected_PreDeleteClient sctx (recording_pre f)) s ([], u)))
     = ([s], snd (f s u))
   \<and> snd (snd (GRPCPostDeleteClient_Execute
               (connected_PostDeleteClient sctx (recording_post g)) s ([], u)))
     = ([s], g s u)"
  by (simp add: PreCreate_remote_call PreDelete_remote_call PostCreate_remote_call
      PostDelete_remote_call recording_pre_step recording_post_step)

text \<open>
  Claim C6. For every local PreCreate implementation \<open>f\<close>: the client adapter composed
  with the server adapter over a faithful transport is, as a function of the stack
  identifier and the world, the local implementation. In particular, if the
  implementation returns true for \<open>prod-stack-1\<close>, the client-side
  \<open>Execute\<close> of \<open>prod-stack-1\<close> returns true.
\<close>

theorem remote_PreCreate_is_local:
  "remote_PreCreate sctx f = local_PreCreate f \<and>
   (fst (f ''prod-stack-1'' w) \<longrightarrow>
      fst (GRPCPreCreateClient_Execute (connected_PreCreateClient sctx f) ''prod-stack-1'' w)
        = Inr True)"
proof
  show "remote_PreCreate sctx f = local_PreCreate f"
  proof (rule ext, rule ext)
    fix s w
    show "remote_PreCreate sctx f s w = local_PreCreate f s w"
      by (simp add: remote_PreCreate_def local_PreCreate_def PreCreate_remote_call
          split: prod.split)
  qed
next
  show "fst (f ''prod-stack-1'' w) \<longrightarrow>
      fst (GRPCPreCreateClient_Execute (connected_PreCreateClient sctx f) ''prod-stack-1'' w)
        = Inr True"
    by (simp add: PreCreate_remote_call)
qed

theorem remote_PreCreate_is_local_witness:
  "fst (abort_only ''prod-stack-1'' ''prod-stack-1'' (0::nat)) \<and>
   fst (GRPCPreCreateClient_Execute
          (connected_PreCreateClient (CallContext 0) (abort_only ''prod-stack-1''))
          ''prod-stack-1'' (0::nat)) = Inr True"
proof -
  have h: "fst (abort_only ''prod-stack-1'' ''prod-stack-1'' (0::nat))"
    by (simp add: abort_only_def)
  from remote_PreCreate_is_local
         [where f = "abort_only ''prod-stack-1''" and w = "0::nat" and sctx = "CallContext 0"]
  show ?thesis using h by simp
qed

text \<open>
  Claim C7. For every local PostDelete implementation \<open>g\<close> with a side effect: one
  client-side \<open>Execute\<close> of \<open>prod-stack-1\<close> over a faithful transport makes the side
  effect happen exactly once (the world after it is what one call of \<open>g\<close> leaves, and
  an implementation that records its calls has recorded one), and the client call returns
  no payload. With the implementation that increments a counter, starting from 0, the
  counter is 1 afterwards.
\<close>

theorem remote_PostDelete_side_effect_once:
  "GRPCPostDeleteClient_Execute (connected_PostDeleteClient sctx g) ''prod-stack-1'' w
     = ((), connected_PostDeleteClient sctx g, g ''prod-stack-1'' w)
   \<and> GRPCPostDeleteClient_Execute (connected_PostDeleteClient sctx (recording_post g))
        ''prod-stack-1'' ([], u)
     = ((), connected_PostDeleteClient sctx (recording_post g),
        ([''prod-stack-1''], g ''prod-stack-1'' u))
   \<and> GRPCPostDeleteClient_Execute (connected_PostDeleteClient sctx increment_counter)
        ''prod-stack-1'' 0
     = ((), connected_PostDeleteClient sctx increment_counter, 1)"
  by (simp add: PostDelete_remote_call recording_post_step increment_counter_def)

subsection \<open>Transport binding\<close>

text \<open>
  Claim C10. The transport-binding methods of the four plugin structs never fail. For
  every broker and server handle, \<open>GRPCServer\<close> registers on the server handle a server
  adapter that wraps the plugin's implementation, and returns a nil error; for every
  context, broker and connection handle, \<open>GRPCClient\<close> returns a client adapter that
  wraps the stub made for that connection, and a nil error.
\<close>

theorem transport_binding_never_fails:
  "PreCreateGRPCPlugin_GRPCServer reg1 p1 broker s
     = (None, reg1 s \<lparr>GRPCPreCreateServer.Impl = PreCreateGRPCPlugin.Impl p1\<rparr>)
   \<and> PreCreateGRPCPlugin_GRPCClient new1 p1 ctx broker c
     = (\<lparr>GRPCPreCreateClient.client = new1 c\<rparr>, None)
   \<and> PostCreateGRPCPlugin_GRPCServer reg2 p2 broker s
     = (None, reg2 s \<lparr>GRPCPostCreateServer.Impl = PostCreateGRPCPlugin.Impl p2\<rparr>)
   \<and> PostCreateGRPCPlugin_GRPCClient new2 p2 ctx broker c
     = (\<lparr>GRPCPostCreateClient.client = new2 c\<rparr>, None)
   \<and> PreDeleteGRPCPlugin_GRPCServer reg3 p3 broker s
     = (None, reg3 s \<lparr>GRPCPreDeleteServer.Impl = PreDeleteGRPCPlugin.Impl p3\<rparr>)
   \<and> PreDeleteGRPCPlugin_GRPCClient new3 p3 ctx broker c
     = (\<lparr>GRPCPreDeleteClient.client = new3 c\<rparr>, None)
   \<and> PostDeleteGRPCPlugin_GRPCServer reg4 p4 broker s
     = (None, reg4 s \<lparr>GRPCPostDeleteServer.Impl = PostDeleteGRPCPlugin.Impl p4\<rparr>)
   \<and> PostDeleteGRPCPlugin_GRPCClient new4 p4 ctx broker c
     = (\<lparr>GRPCPostDeleteClient.client = new4 c\<rparr>, None)"
  by (simp add: PreCreateGRPCPlugin_GRPCServer_def PreCreateGRPCPlugin_GRPCClient_def
      PostCreateGRPCPlugin_GRPCServer_def PostCreateGRPCPlugin_GRPCClient_def
      PreDeleteGRPCPlugin_GRPCServer_def PreDeleteGRPCPlugin_GRPCClient_def
      PostDeleteGRPCPlugin_GRPCServer_def PostDeleteGRPCPlugin_GRPCClient_def)

end
